theory Spec2Isabelle
  imports Complex_Main "HOL-Library.Word"
begin

section \<open>The order publisher: \<open>src/publisher/publisher.py\<close>\<close>

text \<open>
  The program is a Flask application with two views. \<open>submit_order\<close> (route \<open>/\<close>)
  reads the form fields \<open>customer\<close> and \<open>amount\<close>, writes an item to a DynamoDB table
  and publishes a message to an SNS topic; \<open>request_page\<close> (route
  \<open>/request/<uuid:request_id>\<close>) reads the item back.

  The views are embedded as functions from the request and the state of the world to a
  response and the new state of the world. What the libraries contribute is written out:
  the builtin \<open>float\<close>, the \<open>uuid\<close> module, the router with its URL converter, and the
  check boto3 makes on the values of an item before it sends anything. The
  nondeterministic part (the random UUID, whether a request to a backend raises) is
  read from an explicit environment record.
\<close>

subsection \<open>Python floats and the builtin \<open>float\<close>\<close>

text \<open>
  A Python float is an IEEE 754 double: a finite value, one of the two infinities, or
  NaN. A finite double is represented by the rational it denotes (the two zeros are
  not told apart, and rounding to 53 bits inside the range of the doubles is not
  modelled: the finite value read from a decimal text stands for the nearest double.
  Rounding to zero and to infinity at the ends of the range is modelled, since it
  changes how the value compares with \<open>0\<close>).
\<close>

datatype pyfloat = Finite rat | PosInf | NegInf | NaN

text \<open>The comparisons \<open>a < b\<close> and \<open>a >= b\<close> of two floats; both are false when
  either side is NaN.\<close>

fun float_lt :: "pyfloat \<Rightarrow> pyfloat \<Rightarrow> bool" where
  "float_lt NaN _ = False"
| "float_lt _ NaN = False"
| "float_lt (Finite a) (Finite b) = (a < b)"
| "float_lt (Finite a) PosInf = True"
| "float_lt (Finite a) NegInf = False"
| "float_lt PosInf _ = False"
| "float_lt NegInf NegInf = False"
| "float_lt NegInf _ = True"


text \<open>
  \<open>float(s)\<close> for a string. A \<open>char\<close> stands for a code point below 256 (Unicode
  white space and decimal digits from U+0100 on are outside this type of strings).
  Surrounding white space is stripped; an underscore is allowed between two digits;
  what is left is an optional sign followed by \<open>inf\<close>, \<open>infinity\<close> or \<open>nan\<close> in any
  case, or by a decimal number with an optional fraction and an optional exponent.
  Anything else raises \<open>ValueError\<close> (\<open>None\<close> here).
\<close>

text \<open>The white space \<open>float\<close> strips: the space, the characters 9 to 13, and below 256
  the two non-ASCII ones, U+0085 and U+00A0.\<close>

definition is_space :: "char \<Rightarrow> bool" where
  "is_space c =
     (c = CHR '' '' \<or> (9 \<le> (of_char c :: nat) \<and> (of_char c :: nat) \<le> 13)
      \<or> (of_char c :: nat) = 133 \<or> (of_char c :: nat) = 160)"

definition is_digit :: "char \<Rightarrow> bool" where
  "is_digit c = (48 \<le> (of_char c :: nat) \<and> (of_char c :: nat) \<le> 57)"

definition strip :: "string \<Rightarrow> string" where
  "strip s = rev (dropWhile is_space (rev (dropWhile is_space s)))"

fun underscores_ok :: "char \<Rightarrow> string \<Rightarrow> bool" where
  "underscores_ok prev [] = (prev \<noteq> CHR ''_'')"
| "underscores_ok prev (c # cs) =
     ((if c = CHR ''_'' then is_digit prev
       else if prev = CHR ''_'' then is_digit c else True)
      \<and> underscores_ok c cs)"

definition lower :: "char \<Rightarrow> char" where
  "lower c = (if 65 \<le> (of_char c :: nat) \<and> (of_char c :: nat) \<le> 90
              then char_of ((of_char c :: nat) + 32) else c)"

definition split_sign :: "string \<Rightarrow> bool \<times> string" where
  "split_sign s =
     (case s of
        [] \<Rightarrow> (False, [])
      | c # r \<Rightarrow> if c = CHR ''-'' then (True, r)
                 else if c = CHR ''+'' then (False, r) else (False, s))"

definition parse_inf_or_nan :: "string \<Rightarrow> pyfloat option" where
  "parse_inf_or_nan s =
     (case split_sign s of
        (neg, r) \<Rightarrow>
          (let l = map lower r in
           if l = ''inf'' \<or> l = ''infinity'' then Some (if neg then NegInf else PosInf)
           else if l = ''nan'' then Some NaN
           else None))"

definition digits_val :: "string \<Rightarrow> nat" where
  "digits_val ds = foldl (\<lambda>a c. 10 * a + ((of_char c :: nat) - 48)) 0 ds"

definition pow10 :: "int \<Rightarrow> rat" where
  "pow10 e = (if 0 \<le> e then 10 ^ nat e else 1 / 10 ^ nat (- e))"

text \<open>The exponent part: empty, or \<open>e\<close> or \<open>E\<close>, an optional sign and at least one
  digit.\<close>

definition parse_exponent :: "string \<Rightarrow> int option" where
  "parse_exponent s =
     (case s of
        [] \<Rightarrow> Some 0
      | c # r \<Rightarrow>
          if c = CHR ''e'' \<or> c = CHR ''E'' then
            (case split_sign r of
               (neg, ds) \<Rightarrow>
                 if ds \<noteq> [] \<and> list_all is_digit ds
                 then Some (if neg then - int (digits_val ds) else int (digits_val ds))
                 else None)
          else None)"

text \<open>The decimal number: digits, an optional point and digits, at least one digit
  in all, and the exponent part.\<close>

definition parse_decimal :: "string \<Rightarrow> rat option" where
  "parse_decimal s =
     (case split_sign s of
        (neg, r) \<Rightarrow>
          (let ip = takeWhile is_digit r;
               r1 = dropWhile is_digit r;
               has_point = (r1 \<noteq> [] \<and> hd r1 = CHR ''.'');
               fp = (if has_point then takeWhile is_digit (tl r1) else []);
               r2 = (if has_point then dropWhile is_digit (tl r1) else r1)
           in if ip @ fp = [] then None
              else (case parse_exponent r2 of
                      None \<Rightarrow> None
                    | Some e \<Rightarrow>
                        (let m = of_nat (digits_val (ip @ fp)) * pow10 (e - int (length fp))
                         in Some (if neg then - m else m)))))"

text \<open>Rounding at the ends of the range of the doubles: a value of magnitude at most
  \<open>2^-1075\<close> (half the least positive double) becomes zero, one of magnitude at least
  \<open>2^1024 - 2^970\<close> (half way from the greatest double to \<open>2^1024\<close>) becomes an
  infinity.\<close>

definition round_double :: "rat \<Rightarrow> pyfloat" where
  "round_double q =
     (if \<bar>q\<bar> \<le> 1 / 2 ^ 1075 then Finite 0
      else if 2 ^ 1024 - 2 ^ 970 \<le> \<bar>q\<bar> then (if q < 0 then NegInf else PosInf)
      else Finite q)"

definition py_float :: "string \<Rightarrow> pyfloat option" where
  "py_float s =
     (let t = strip s in
      if underscores_ok (CHR 0x00) t then
        (let u = filter (\<lambda>c. c \<noteq> CHR ''_'') t in
         case parse_decimal u of
           Some q \<Rightarrow> Some (round_double q)
         | None \<Rightarrow> parse_inf_or_nan u)
      else None)"

subsection \<open>UUIDs: \<open>uuid.uuid4\<close>, \<open>str\<close> and the URL converter \<open>uuid\<close>\<close>

text \<open>A \<open>uuid.UUID\<close> holds a 128-bit integer.\<close>

type_synonym UUID = "128 word"

definition hex_digit :: "nat \<Rightarrow> char" where
  "hex_digit d = ''0123456789abcdef'' ! d"

text \<open>\<open>'%0kx' % n\<close>: the \<open>k\<close> lower-case hexadecimal digits of \<open>n < 16^k\<close>.\<close>

fun hex_of :: "nat \<Rightarrow> nat \<Rightarrow> string" where
  "hex_of 0 n = []"
| "hex_of (Suc k) n = hex_of k (n div 16) @ [hex_digit (n mod 16)]"

text \<open>\<open>str(u)\<close>: the 32 digits of \<open>'%032x' % u.int\<close> in groups of 8, 4, 4, 4 and 12.\<close>

definition str_UUID :: "UUID \<Rightarrow> string" where
  "str_UUID u =
     (let h = hex_of 32 (unat u)
      in take 8 h @ ''-'' @ take 4 (drop 8 h) @ ''-'' @ take 4 (drop 12 h) @ ''-''
         @ take 4 (drop 16 h) @ ''-'' @ drop 20 h)"

definition is_hex :: "char \<Rightarrow> bool" where
  "is_hex c = (let n = (of_char c :: nat)
               in (48 \<le> n \<and> n \<le> 57) \<or> (65 \<le> n \<and> n \<le> 70) \<or> (97 \<le> n \<and> n \<le> 102))"

definition hex_val :: "char \<Rightarrow> nat" where
  "hex_val c = (let n = (of_char c :: nat)
                in if n \<le> 57 then n - 48 else if n \<le> 70 then n - 55 else n - 87)"

text \<open>\<open>int(s, 16)\<close> on a string of hexadecimal digits.\<close>

definition int16 :: "string \<Rightarrow> nat" where
  "int16 s = foldl (\<lambda>a c. 16 * a + hex_val c) 0 s"

text \<open>
  The converter of the route \<open>/request/<uuid:request_id>\<close>. A path segment matches
  when it has the form
  \<open>[A-Fa-f0-9]{8}-[A-Fa-f0-9]{4}-[A-Fa-f0-9]{4}-[A-Fa-f0-9]{4}-[A-Fa-f0-9]{12}\<close>;
  the view then receives \<open>uuid.UUID(segment)\<close>, which drops the hyphens and reads the
  32 digits with \<open>int(hex, 16)\<close>.
\<close>

definition uuid_regex :: "string \<Rightarrow> bool" where
  "uuid_regex s =
     (length s = 36
      \<and> list_all is_hex (take 8 s) \<and> s ! 8 = CHR ''-''
      \<and> list_all is_hex (take 4 (drop 9 s)) \<and> s ! 13 = CHR ''-''
      \<and> list_all is_hex (take 4 (drop 14 s)) \<and> s ! 18 = CHR ''-''
      \<and> list_all is_hex (take 4 (drop 19 s)) \<and> s ! 23 = CHR ''-''
      \<and> list_all is_hex (drop 24 s))"

definition uuid_to_python :: "string \<Rightarrow> UUID option" where
  "uuid_to_python s =
     (if uuid_regex s then Some (word_of_nat (int16 (filter (\<lambda>c. c \<noteq> CHR ''-'') s)))
      else None)"

subsection \<open>Exceptions, the backends and the responses\<close>

text \<open>
  The exception classes the two views meet. \<open>ValueError\<close> is the one class the first
  \<open>except\<close> clause of \<open>submit_order\<close> catches; \<open>BadRequestKeyError\<close> is what
  \<open>request.form[key]\<close> raises for a missing field, \<open>UnboundLocalError\<close> what reading
  a local variable raises before its assignment (the payload is the variable's name),
  \<open>TypeError\<close> what boto3 raises for a value it does not store, and \<open>OtherError\<close>
  stands for every other subclass of \<open>Exception\<close> a request to a backend may raise. All
  five are subclasses of \<open>Exception\<close>.
\<close>

datatype exn =
    ValueError string
  | BadRequestKeyError string
  | UnboundLocalError string
  | TypeError string
  | OtherError string

text \<open>
  The numbers an item may hold on the Python side: a \<open>float\<close>, which is what
  \<open>submit_order\<close> passes, or a \<open>decimal.Decimal\<close>, which is what the table hands back.
\<close>

datatype pynumber = PyFloat pyfloat | PyDecimal rat

text \<open>The item \<open>{'id': order_id, 'customer': customer, 'amount': amount}\<close>.\<close>

record item =
  item_id :: string
  item_customer :: string
  item_amount :: pynumber

text \<open>
  The arguments of \<open>sns_client.publish\<close>. \<open>Message\<close> is \<open>json.dumps\<close> of a dict and the
  attribute's \<open>StringValue\<close> is \<open>str\<close> of a float; how Python prints a float is not
  modelled, so the record keeps the dict (its keys in order, with their values) and the
  float of which the attribute holds the text.
\<close>

datatype json_value = JString string | JNumber pyfloat

record message_attribute =
  DataType :: string
  StringValue_str :: pyfloat

record sns_message =
  TargetArn :: string
  Message_json_dumps :: "(string \<times> json_value) list"
  MessageAttributes :: "(string \<times> message_attribute) list"

text \<open>The calls the views make on the clients of the two backends, in the order they
  are made (a call is listed whether or not it raises).\<close>

datatype backend_call = PutItem item | Publish sns_message | GetItem string

text \<open>The state of the world: the table's items by key, and the calls made so far.\<close>

record world =
  db_table :: "string \<rightharpoonup> item"
  backend_calls :: "backend_call list"

text \<open>
  What one request reads from its surroundings: the configuration (\<open>topic_arn\<close>), the
  random values (\<open>uuid.uuid4()\<close>, the sample name and amount of the empty form) and,
  for each request sent to a backend, the exception it raises, if any.
\<close>

record env =
  topic_arn :: string
  uuid4 :: UUID
  put_item_raises :: "exn option"
  publish_raises :: "exn option"
  get_item_raises :: "exn option"
  get_full_name :: string
  uniform_amount :: pyfloat

datatype http_method = GET | POST

record request =
  req_method :: http_method
  form :: "string \<rightharpoonup> string"

text \<open>
  The responses: the redirect of a view to a location, the two templates with their
  arguments, a string with a status, and what Flask answers by itself: 404 when no
  route matches, the router's permanent redirect (308) to a path, 500 when an exception
  leaves the view. \<open>StaticRoute\<close> stands for whatever Flask's own route
  \<open>/static/<path:filename>\<close> makes of a path; it is not modelled further.
\<close>

datatype response =
    Redirect string
  | RenderIndex "string option" string pyfloat
  | RenderOrder item
  | Body string nat
  | NotFound
  | PermanentRedirect string
  | StaticRoute string
  | InternalServerError exn

subsection \<open>\<open>db_table.put_item\<close>\<close>

text \<open>
  \<open>db_table\<close> is a boto3 resource \<open>Table\<close>. Before a request is built, the resource
  layer turns every value of \<open>Item\<close> into a DynamoDB attribute value; a \<open>str\<close> and a
  \<open>Decimal\<close> pass (a \<open>Decimal\<close> of more than 38 digits apart, which the views never
  build), and a \<open>float\<close> raises \<open>TypeError\<close>.
\<close>

definition serialize_number :: "pynumber \<Rightarrow> exn option" where
  "serialize_number n =
     (case n of
        PyFloat f \<Rightarrow> Some (TypeError ''Float types are not supported. Use Decimal types instead.'')
      | PyDecimal d \<Rightarrow> None)"

text \<open>The call \<open>db_table.put_item(Item=it)\<close>: the exception it raises, if any, and the
  new world. The item is written when its values pass and the request does not raise.\<close>

definition put_item :: "env \<Rightarrow> item \<Rightarrow> world \<Rightarrow> exn option \<times> world" where
  "put_item env it w =
     (let w1 = w\<lparr>backend_calls := backend_calls w @ [PutItem it]\<rparr>
      in case serialize_number (item_amount it) of
           Some e \<Rightarrow> (Some e, w1)
         | None \<Rightarrow>
             (case put_item_raises env of
                Some e \<Rightarrow> (Some e, w1)
              | None \<Rightarrow> (None, w1\<lparr>db_table := (db_table w1)(item_id it \<mapsto> it)\<rparr>)))"

subsection \<open>The view \<open>submit_order\<close>\<close>

text \<open>
  \<open>render_template('index.html', error=..., customer=customer, amount=amount)\<close> inside
  an \<open>except\<close> clause. The two locals are read in this order; one that the \<open>try\<close> block
  had not yet assigned when the exception was raised (\<open>None\<close>) raises
  \<open>UnboundLocalError\<close>, which no clause catches.
\<close>

definition render_error :: "string \<Rightarrow> string option \<Rightarrow> pyfloat option \<Rightarrow> response" where
  "render_error error customer amount =
     (case customer of
        None \<Rightarrow> InternalServerError (UnboundLocalError ''customer'')
      | Some c \<Rightarrow>
          (case amount of
             None \<Rightarrow> InternalServerError (UnboundLocalError ''amount'')
           | Some a \<Rightarrow> RenderIndex (Some error) c a))"

text \<open>The two \<open>except\<close> clauses: \<open>except ValueError as ve\<close> shows \<open>str(ve)\<close>,
  \<open>except Exception\<close> a fixed message.\<close>

definition handle_exception :: "exn \<Rightarrow> string option \<Rightarrow> pyfloat option \<Rightarrow> response" where
  "handle_exception e customer amount =
     (case e of
        ValueError msg \<Rightarrow> render_error msg customer amount
      | _ \<Rightarrow> render_error ''An error occurred. Please try again later.'' customer amount)"

text \<open>\<open>repr\<close> of a string, as it stands in the message of the \<open>ValueError\<close> of
  \<open>float\<close>: the string in single quotes (Python also escapes quotes, backslashes and
  control characters inside; the message is logged and never reaches a response).\<close>

definition repr :: "string \<Rightarrow> string" where
  "repr s = [CHR 0x27] @ s @ [CHR 0x27]"

definition url_for_request_page :: "string \<Rightarrow> string" where
  "url_for_request_page request_id = ''/request/'' @ request_id"

definition order_message :: "env \<Rightarrow> string \<Rightarrow> pyfloat \<Rightarrow> sns_message" where
  "order_message env customer amount =
     \<lparr>TargetArn = topic_arn env,
      Message_json_dumps = [(''customer'', JString customer), (''amount'', JNumber amount)],
      MessageAttributes = [(''amount'', \<lparr>DataType = ''Number'', StringValue_str = amount\<rparr>)]\<rparr>"

definition submit_order :: "env \<Rightarrow> request \<Rightarrow> world \<Rightarrow> response \<times> world" where
  "submit_order env req w =
     (case req_method req of
        POST \<Rightarrow>
          (let order_id = str_UUID (uuid4 env) in
           case form req ''customer'' of
             None \<Rightarrow> (handle_exception (BadRequestKeyError ''customer'') None None, w)
           | Some customer \<Rightarrow>
               (case form req ''amount'' of
                  None \<Rightarrow>
                    (handle_exception (BadRequestKeyError ''amount'') (Some customer) None, w)
                | Some raw \<Rightarrow>
                    (case py_float raw of
                       None \<Rightarrow>
                         (handle_exception
                            (ValueError (''could not convert string to float: '' @ repr raw))
                            (Some customer) None, w)
                     | Some amount \<Rightarrow>
                         if float_lt amount (Finite 0) then
                           (handle_exception (ValueError ''Amount must be a positive number.'')
                              (Some customer) (Some amount), w)
                         else
                           (case put_item env
                                   \<lparr>item_id = order_id, item_customer = customer,
                                    item_amount = PyFloat amount\<rparr> w of
                              (Some e, w1) \<Rightarrow>
                                (handle_exception e (Some customer) (Some amount), w1)
                            | (None, w2) \<Rightarrow>
                                (let w3 = w2\<lparr>backend_calls := backend_calls w2
                                            @ [Publish (order_message env customer amount)]\<rparr>
                                 in case publish_raises env of
                                      Some e \<Rightarrow>
                                        (handle_exception e (Some customer) (Some amount), w3)
                                    | None \<Rightarrow>
                                        (Redirect (url_for_request_page order_id), w3))))))
      | GET \<Rightarrow> (RenderIndex None (get_full_name env) (uniform_amount env), w))"

subsection \<open>The view \<open>request_page\<close>\<close>

definition request_page :: "env \<Rightarrow> UUID \<Rightarrow> world \<Rightarrow> response \<times> world" where
  "request_page env request_id w =
     (let w1 = w\<lparr>backend_calls := backend_calls w @ [GetItem (str_UUID request_id)]\<rparr>
      in case get_item_raises env of
           Some e \<Rightarrow> (Body ''Failed to retrieve order. Please try again later.'' 500, w1)
         | None \<Rightarrow>
             (case db_table w (str_UUID request_id) of
                None \<Rightarrow>
                  (Body (''Order with ID '' @ str_UUID request_id @ '' not found.'') 404, w1)
              | Some it \<Rightarrow> (RenderOrder it, w1)))"

subsection \<open>The router\<close>

text \<open>The two routes of the source: \<open>/\<close> and \<open>/request/<uuid:request_id>\<close>, the second
  when the converter accepts the segment.\<close>

datatype route = Index | RequestPage UUID

definition match_route :: "string \<Rightarrow> route option" where
  "match_route path =
     (if path = ''/'' then Some Index
      else if take 9 path = ''/request/''
      then map_option RequestPage (uuid_to_python (drop 9 path))
      else None)"

text \<open>
  When no route matches a path, the router merges its doubled slashes,
  \<open>re.sub("/{2,}?", "/", path)\<close>: from the left, each two adjacent slashes become one
  (three become two).
\<close>

fun merge_slashes :: "string \<Rightarrow> string" where
  "merge_slashes (a # b # cs) =
     (if a = CHR ''/'' \<and> b = CHR ''/'' then CHR ''/'' # merge_slashes cs
      else a # merge_slashes (b # cs))"
| "merge_slashes cs = cs"

text \<open>
  A \<open>GET\<close> of a path. A path that matches a route is answered by its view. For any
  other path, when the path with its slashes merged matches a route the router answers
  with a permanent redirect to that path, and with 404 otherwise; no view is called.
  Paths that lead into \<open>/static/\<close> are left to Flask's static route.
\<close>

definition get_path :: "env \<Rightarrow> string \<Rightarrow> world \<Rightarrow> response \<times> world" where
  "get_path env path w =
     (case match_route path of
        Some Index \<Rightarrow> submit_order env \<lparr>req_method = GET, form = Map.empty\<rparr> w
      | Some (RequestPage request_id) \<Rightarrow> request_page env request_id w
      | None \<Rightarrow>
          if take 8 path = ''/static/'' \<or> take 8 (merge_slashes path) = ''/static/''
          then (StaticRoute path, w)
          else (case match_route (merge_slashes path) of
                  Some r \<Rightarrow> (PermanentRedirect (merge_slashes path), w)
                | None \<Rightarrow> (NotFound, w)))"

subsection \<open>Example inputs\<close>

text \<open>An environment in which no request to a backend raises, a \<open>POST\<close> of the two
  form fields, and the world before any request.\<close>

definition example_env :: env where
  "example_env =
     \<lparr>topic_arn = ''arn:aws:sns:eu-west-1:123456789012:ordersTopic'',
      uuid4 = 0x123e4567e89b42d3a456426614174000,
      put_item_raises = None, publish_raises = None, get_item_raises = None,
      get_full_name = ''Jane Doe'', uniform_amount = Finite (85 / 2)\<rparr>"

definition post :: "string \<Rightarrow> string \<Rightarrow> request" where
  "post customer amount =
     \<lparr>req_method = POST, form = [''customer'' \<mapsto> customer, ''amount'' \<mapsto> amount]\<rparr>"

definition empty_world :: world where
  "empty_world = \<lparr>db_table = Map.empty, backend_calls = []\<rparr>"

section \<open>Properties\<close>

subsection \<open>\<open>str\<close> of a UUID is read back by the converter\<close>






lemma int16_snoc: "int16 (s @ [c]) = 16 * int16 s + hex_val c"
  by (simp add: int16_def)







text \<open>Conversely, a segment the converter accepts is read as the UUID whose \<open>str\<close> is
  the segment in lower case: \<open>request_page\<close> looks an id up, and names it in its
  messages, in lower case.\<close>

lemma hex_char_table:
  "list_all (\<lambda>c. hex_val c < 16 \<and> lower c = hex_digit (hex_val c) \<and> c \<noteq> CHR ''-'')
     ''0123456789abcdefABCDEF''"
  by (simp add: hex_val_def hex_digit_def lower_def char_of_eq_iff)

lemma is_hex_cases:
  assumes "is_hex c"
  shows "c \<in> set ''0123456789abcdefABCDEF''"
proof -
  have "(of_char c :: nat) \<in> of_char ` set ''0123456789abcdefABCDEF''"
    using assms unfolding is_hex_def Let_def by simp arith
  then obtain c' where "c' \<in> set ''0123456789abcdefABCDEF''"
    and "(of_char c :: nat) = of_char c'"
    by blast
  then show ?thesis by simp
qed

lemma hex_char_props:
  assumes "is_hex c"
  shows "hex_val c < 16" and "hex_digit (hex_val c) = lower c" and "c \<noteq> CHR ''-''"
proof -
  from hex_char_table is_hex_cases [OF assms]
  have "hex_val c < 16 \<and> lower c = hex_digit (hex_val c) \<and> c \<noteq> CHR ''-''"
    unfolding list_all_iff by blast
  then show "hex_val c < 16" and "hex_digit (hex_val c) = lower c" and "c \<noteq> CHR ''-''"
    by simp_all
qed

lemma lower_hyphen: "lower (CHR ''-'') = CHR ''-''"
  by (simp add: lower_def)

lemma hex_of_int16:
  assumes "list_all is_hex h"
  shows "hex_of (length h) (int16 h) = map lower h \<and> int16 h < 16 ^ length h"
  using assms
proof (induction h rule: rev_induct)
  case Nil
  show ?case by (simp add: int16_def)
next
  case (snoc c h)
  then have IH: "hex_of (length h) (int16 h) = map lower h" "int16 h < 16 ^ length h"
    and c: "is_hex c"
    by simp_all
  note v = hex_char_props [OF c]
  have d: "(16 * int16 h + hex_val c) div 16 = int16 h"
    using v(1) by simp
  have m: "hex_val c mod 16 = hex_val c"
    using v(1) by simp
  have "int16 h + 1 \<le> 16 ^ length h" using IH(2) by simp
  then have "16 * (int16 h + 1) \<le> 16 * 16 ^ length h" by (rule mult_le_mono2)
  then have b: "16 * int16 h + hex_val c < 16 * 16 ^ length h"
    using v(1) by simp
  show ?case
    by (simp add: int16_snoc d m IH(1) v(2) b)
qed


lemma uuid_regex_groups:
  assumes "uuid_regex s"
  obtains a b c d e where "s = a @ ''-'' @ b @ ''-'' @ c @ ''-'' @ d @ ''-'' @ e"
    and "length a = 8" and "length b = 4" and "length c = 4" and "length d = 4"
    and "length e = 12" and "list_all is_hex (a @ b @ c @ d @ e)"
proof -
  from assms have len: "length s = 36"
    and h: "s ! 8 = CHR ''-''" "s ! 13 = CHR ''-''" "s ! 18 = CHR ''-''" "s ! 23 = CHR ''-''"
    and x: "list_all is_hex (take 8 s)" "list_all is_hex (take 4 (drop 9 s))"
      "list_all is_hex (take 4 (drop 14 s))" "list_all is_hex (take 4 (drop 19 s))"
      "list_all is_hex (drop 24 s)"
    by (simp_all add: uuid_regex_def)
  have step: "drop n s = s ! n # drop (Suc n) s" if "n < 36" for n
    using that len by (simp add: Cons_nth_drop_Suc)
  have "s = take 8 s @ drop 8 s" by simp
  also have "drop 8 s = ''-'' @ drop 9 s" using step [of 8] h by simp
  also have "drop 9 s = take 4 (drop 9 s) @ drop 13 s"
    using append_take_drop_id [of 4 "drop 9 s"] by simp
  also have "drop 13 s = ''-'' @ drop 14 s" using step [of 13] h by simp
  also have "drop 14 s = take 4 (drop 14 s) @ drop 18 s"
    using append_take_drop_id [of 4 "drop 14 s"] by simp
  also have "drop 18 s = ''-'' @ drop 19 s" using step [of 18] h by simp
  also have "drop 19 s = take 4 (drop 19 s) @ drop 23 s"
    using append_take_drop_id [of 4 "drop 19 s"] by simp
  also have "drop 23 s = ''-'' @ drop 24 s" using step [of 23] h by simp
  finally have "s = take 8 s @ ''-'' @ take 4 (drop 9 s) @ ''-'' @ take 4 (drop 14 s) @ ''-''
      @ take 4 (drop 19 s) @ ''-'' @ drop 24 s" .
  moreover have "length (take 8 s) = 8" "length (take 4 (drop 9 s)) = 4"
    "length (take 4 (drop 14 s)) = 4" "length (take 4 (drop 19 s)) = 4"
    "length (drop 24 s) = 12"
    using len by simp_all
  moreover have "list_all is_hex (take 8 s @ take 4 (drop 9 s) @ take 4 (drop 14 s)
      @ take 4 (drop 19 s) @ drop 24 s)"
    using x by simp
  ultimately show thesis by (rule that)
qed

lemma str_UUID_uuid_to_python:
  assumes "uuid_regex s"
  shows "\<exists>u. uuid_to_python s = Some u \<and> str_UUID u = map lower s"
proof -
  from assms obtain a b c d e where s: "s = a @ ''-'' @ b @ ''-'' @ c @ ''-'' @ d @ ''-'' @ e"
    and len: "length a = 8" "length b = 4" "length c = 4" "length d = 4" "length e = 12"
    and hex: "list_all is_hex (a @ b @ c @ d @ e)"
    by (rule uuid_regex_groups)
  define h where "h = a @ b @ c @ d @ e"
  have nh: "filter (\<lambda>c. c \<noteq> CHR ''-'') x = x" if "list_all is_hex x" for x
    using that by (induction x) (auto dest: hex_char_props(3))
  have f: "filter (\<lambda>c. c \<noteq> CHR ''-'') s = h"
    using hex by (simp add: s h_def nh)
  have hl: "length h = 32" by (simp add: h_def len)
  from hex_of_int16 [of h] hex
  have ho: "hex_of 32 (int16 h) = map lower h" and bd: "int16 h < 16 ^ 32"
    by (simp_all add: h_def [symmetric] hl)
  have "int16 h < 2 ^ LENGTH(128)" using bd by simp
  then have un: "unat (word_of_nat (int16 h) :: UUID) = int16 h"
    by (simp add: unat_of_nat take_bit_nat_eq_self)
  have "str_UUID (word_of_nat (int16 h)) = map lower s"
    unfolding str_UUID_def un ho Let_def
    by (simp add: h_def s len lower_hyphen)
  then show ?thesis
    using assms by (simp add: uuid_to_python_def f)
qed

subsection \<open>Evaluating the examples\<close>

lemmas py_float_defs =
  py_float_def strip_def is_space_def is_digit_def parse_decimal_def split_sign_def
  parse_exponent_def digits_val_def pow10_def Let_def round_double_def parse_inf_or_nan_def
  lower_def

lemma py_float_42_50: "py_float ''42.50'' = Some (Finite (85 / 2))"
  by (simp add: py_float_defs)

lemma py_float_10_0: "py_float ''10.0'' = Some (Finite 10)"
  by (simp add: py_float_defs)

lemma py_float_minus_5_0: "py_float ''-5.0'' = Some (Finite (- 5))"
  by (simp add: py_float_defs)

lemma py_float_abc: "py_float ''abc'' = None"
  by (simp add: py_float_defs)


text \<open>A decimal text below zero whose magnitude is under half the least positive
  double is read as zero, which is not below \<open>0\<close>.\<close>

lemma py_float_underflow: "py_float ''-1e-400'' = Some (Finite 0)"
  by (simp add: py_float_defs)

lemma uuid_regex_example: "uuid_regex ''123e4567-e89b-42d3-a456-426614174000''"
  by (simp add: uuid_regex_def is_hex_def)

lemma uuid_to_python_example:
  "uuid_to_python ''123e4567-e89b-42d3-a456-426614174000''
     = Some 0x123e4567e89b42d3a456426614174000"
proof -
  have "int16 ''123e4567e89b42d3a456426614174000'' = 0x123e4567e89b42d3a456426614174000"
    by (simp add: int16_def hex_val_def)
  then show ?thesis
    by (simp add: uuid_to_python_def uuid_regex_example)
qed

lemma str_UUID_example:
  "str_UUID 0x123e4567e89b42d3a456426614174000 = ''123e4567-e89b-42d3-a456-426614174000''"
proof -
  have "map lower ''123e4567-e89b-42d3-a456-426614174000''
      = ''123e4567-e89b-42d3-a456-426614174000''"
    by (simp add: lower_def)
  with str_UUID_uuid_to_python [OF uuid_regex_example] show ?thesis
    unfolding uuid_to_python_example by simp
qed


lemma example_env_simps:
  "uuid4 example_env = 0x123e4567e89b42d3a456426614174000"
  "put_item_raises example_env = None"
  "publish_raises example_env = None" "get_item_raises example_env = None"
  "topic_arn example_env = ''arn:aws:sns:eu-west-1:123456789012:ordersTopic''"
  by (simp_all add: example_env_def)

lemma post_simps:
  "req_method (post c a) = POST" "form (post c a) ''customer'' = Some c"
  "form (post c a) ''amount'' = Some a"
  by (simp_all add: post_def)

subsection \<open>The paths of a submission\<close>

text \<open>\<open>put_item\<close> of an item whose amount is a float raises \<open>TypeError\<close>, whatever the
  environment, and writes nothing.\<close>

lemma put_item_float:
  "put_item env \<lparr>item_id = i, item_customer = c, item_amount = PyFloat a\<rparr> w
     = (Some (TypeError ''Float types are not supported. Use Decimal types instead.''),
        w\<lparr>backend_calls := backend_calls w
             @ [PutItem \<lparr>item_id = i, item_customer = c, item_amount = PyFloat a\<rparr>]\<rparr>)"
  by (simp add: put_item_def serialize_number_def)

text \<open>A \<open>POST\<close> with both fields whose amount parses to a float that is not below
  zero reaches \<open>put_item\<close>, which raises; the \<open>except Exception\<close> clause answers.\<close>

lemma submit_order_accepted:
  assumes "req_method req = POST"
    and "form req ''customer'' = Some customer"
    and "form req ''amount'' = Some raw"
    and "py_float raw = Some amount"
    and "\<not> float_lt amount (Finite 0)"
  shows "submit_order env req w =
     (RenderIndex (Some ''An error occurred. Please try again later.'') customer amount,
      w\<lparr>backend_calls := backend_calls w
           @ [PutItem \<lparr>item_id = str_UUID (uuid4 env), item_customer = customer,
                       item_amount = PyFloat amount\<rparr>]\<rparr>)"
  using assms
  by (simp add: submit_order_def put_item_float handle_exception_def render_error_def)

text \<open>A \<open>POST\<close> with both fields whose amount does not parse: \<open>float\<close> raises
  \<open>ValueError\<close> while \<open>amount\<close> is unassigned, and the clause that catches it raises
  \<open>UnboundLocalError\<close> in turn.\<close>

lemma submit_order_unparsable:
  assumes "req_method req = POST"
    and "form req ''customer'' = Some customer"
    and "form req ''amount'' = Some raw"
    and "py_float raw = None"
  shows "submit_order env req w = (InternalServerError (UnboundLocalError ''amount''), w)"
  using assms by (simp add: submit_order_def handle_exception_def render_error_def)

text \<open>Any request that does not reach \<open>put_item\<close> leaves the world as it was.\<close>

lemma submit_order_not_accepted:
  assumes "\<not> (\<exists>customer raw amount. req_method req = POST
      \<and> form req ''customer'' = Some customer \<and> form req ''amount'' = Some raw
      \<and> py_float raw = Some amount \<and> \<not> float_lt amount (Finite 0))"
  shows "snd (submit_order env req w) = w"
  using assms
  by (auto simp: submit_order_def Let_def split: http_method.splits option.splits)


subsection \<open>The paths of a lookup\<close>

lemma get_path_request:
  assumes "uuid_to_python seg = Some u"
  shows "get_path env (''/request/'' @ seg) w = request_page env u w"
  using assms by (simp add: get_path_def match_route_def)


subsection \<open>Claims\<close>

text \<open>
  C1. The claim: a submission with a customer and an amount that parses as a value of
  at least 0 is stored, and a lookup of the id it returns renders the submitted
  customer and amount. The view calls \<open>put_item\<close> with the amount as a \<open>float\<close>, which
  boto3 refuses: at the submission below the \<open>except Exception\<close> clause answers with
  the form and the fixed message, no id is returned, the table is empty, and a lookup
  of the generated id is answered 404.
\<close>

theorem valid_submission_not_stored:
  "submit_order example_env (post ''Jane Doe'' ''42.50'') empty_world
     = (RenderIndex (Some ''An error occurred. Please try again later.'') ''Jane Doe''
          (Finite (85 / 2)),
        \<lparr>db_table = Map.empty,
         backend_calls =
           [PutItem \<lparr>item_id = ''123e4567-e89b-42d3-a456-426614174000'',
                     item_customer = ''Jane Doe'',
                     item_amount = PyFloat (Finite (85 / 2))\<rparr>]\<rparr>)
   \<and> fst (get_path example_env ''/request/123e4567-e89b-42d3-a456-426614174000''
            (snd (submit_order example_env (post ''Jane Doe'' ''42.50'') empty_world)))
     = Body ''Order with ID 123e4567-e89b-42d3-a456-426614174000 not found.'' 404"
proof -
  have nlt: "\<not> float_lt (Finite (85 / 2)) (Finite 0)" by simp
  have s: "submit_order example_env (post ''Jane Doe'' ''42.50'') empty_world
     = (RenderIndex (Some ''An error occurred. Please try again later.'') ''Jane Doe''
          (Finite (85 / 2)),
        \<lparr>db_table = Map.empty,
         backend_calls =
           [PutItem \<lparr>item_id = ''123e4567-e89b-42d3-a456-426614174000'',
                     item_customer = ''Jane Doe'',
                     item_amount = PyFloat (Finite (85 / 2))\<rparr>]\<rparr>)"
    by (simp add: submit_order_accepted [OF post_simps py_float_42_50 nlt] example_env_simps
        str_UUID_example empty_world_def)
  have g: "get_path example_env (''/request/'' @ ''123e4567-e89b-42d3-a456-426614174000'') w
      = request_page example_env 0x123e4567e89b42d3a456426614174000 w" for w
    by (rule get_path_request [OF uuid_to_python_example])
  show ?thesis
    unfolding s using g
    by (simp add: request_page_def example_env_simps str_UUID_example)
qed




text \<open>
  C3. For every submission whose amount parses as a value below 0, \<open>submit_order\<close>
  takes the \<open>ValueError\<close> clause (the form is shown again with the message of the
  error) and leaves the world as it was: no call on the table, none on the topic.
\<close>

theorem negative_amount_rejected:
  assumes "req_method req = POST"
    and "form req ''customer'' = Some customer"
    and "form req ''amount'' = Some raw"
    and "py_float raw = Some amount" and "float_lt amount (Finite 0)"
  shows "submit_order env req w
       = (RenderIndex (Some ''Amount must be a positive number.'') customer amount, w)"
  using assms
  by (simp add: submit_order_def handle_exception_def render_error_def)

theorem negative_amount_rejected_witness:
  "submit_order example_env (post ''John Doe'' ''-5.0'') empty_world
     = (RenderIndex (Some ''Amount must be a positive number.'') ''John Doe'' (Finite (- 5)),
        empty_world)"
proof -
  have lt: "float_lt (Finite (- 5)) (Finite 0)" by simp
  from negative_amount_rejected [OF post_simps py_float_minus_5_0 lt]
  show ?thesis .
qed

text \<open>
  C4. For every request, in every environment and world: the calls \<open>submit_order\<close>
  adds are none, or \<open>put_item\<close> alone. \<open>put_item\<close>, when it is called, raises (its item
  holds a float): the table is unchanged, \<open>publish\<close> is not called, and the response is
  the form shown again with the fixed retry message. So \<open>publish\<close> is never called
  before a table write has succeeded.
\<close>

theorem publish_only_after_put:
  "\<exists>cs. backend_calls (snd (submit_order env req w)) = backend_calls w @ cs
      \<and> db_table (snd (submit_order env req w)) = db_table w
      \<and> (cs = []
          \<or> (\<exists>it a. cs = [PutItem it] \<and> item_amount it = PyFloat a
                \<and> fst (submit_order env req w)
                  = RenderIndex (Some ''An error occurred. Please try again later.'')
                      (item_customer it) a))"
proof (cases "\<exists>customer raw amount. req_method req = POST
    \<and> form req ''customer'' = Some customer \<and> form req ''amount'' = Some raw
    \<and> py_float raw = Some amount \<and> \<not> float_lt amount (Finite 0)")
  case True
  then obtain customer raw amount where a: "req_method req = POST"
    "form req ''customer'' = Some customer" "form req ''amount'' = Some raw"
    "py_float raw = Some amount" "\<not> float_lt amount (Finite 0)"
    by blast
  show ?thesis
    by (simp add: submit_order_accepted [OF a])
next
  case False
  then have "snd (submit_order env req w) = w"
    by (rule submit_order_not_accepted)
  then show ?thesis
    by simp
qed

theorem publish_only_after_put_witness:
  "db_table (snd (submit_order example_env (post ''John Doe'' ''10.0'') empty_world))
     = Map.empty
   \<and> fst (submit_order example_env (post ''John Doe'' ''10.0'') empty_world)
     = RenderIndex (Some ''An error occurred. Please try again later.'') ''John Doe''
         (Finite 10)"
proof -
  let ?r = "submit_order example_env (post ''John Doe'' ''10.0'') empty_world"
  have nlt: "\<not> float_lt (Finite 10) (Finite 0)" by simp
  have calls: "backend_calls (snd ?r)
      = [PutItem \<lparr>item_id = str_UUID (uuid4 example_env), item_customer = ''John Doe'',
                  item_amount = PyFloat (Finite 10)\<rparr>]"
    by (simp add: submit_order_accepted [OF post_simps py_float_10_0 nlt] empty_world_def)
  from publish_only_after_put [of example_env "post ''John Doe'' ''10.0''" empty_world]
  obtain cs where "backend_calls (snd ?r) = backend_calls empty_world @ cs"
    and "db_table (snd ?r) = db_table empty_world"
    and "cs = [] \<or> (\<exists>it a. cs = [PutItem it] \<and> item_amount it = PyFloat a
            \<and> fst ?r = RenderIndex (Some ''An error occurred. Please try again later.'')
                  (item_customer it) a)"
    by auto
  with calls show ?thesis
    by (auto simp: empty_world_def)
qed









text \<open>
  C7. For every well-formed id whose lower-case form is no key of the table, when
  \<open>get_item\<close> answers, the lookup responds with status 404 and the message
  \<open>Order with ID <id> not found.\<close>, naming the id in lower case; the table was read
  once, under that key.
\<close>

theorem absent_id_not_found:
  assumes "uuid_regex seg" and "get_item_raises env = None"
    and "db_table w (map lower seg) = None"
  shows "get_path env (''/request/'' @ seg) w
       = (Body (''Order with ID '' @ map lower seg @ '' not found.'') 404,
          w\<lparr>backend_calls := backend_calls w @ [GetItem (map lower seg)]\<rparr>)"
proof -
  from str_UUID_uuid_to_python [OF assms(1)]
  obtain u where u: "uuid_to_python seg = Some u" "str_UUID u = map lower seg"
    by blast
  show ?thesis
    unfolding get_path_request [OF u(1)]
    by (simp add: u(2) request_page_def assms(2,3) Let_def)
qed

lemma regex_nil_uuid: "uuid_regex ''00000000-0000-0000-0000-000000000000''"
  by (simp add: uuid_regex_def is_hex_def)

theorem absent_id_not_found_witness:
  "get_path example_env ''/request/00000000-0000-0000-0000-000000000000'' empty_world
     = (Body ''Order with ID 00000000-0000-0000-0000-000000000000 not found.'' 404,
        \<lparr>db_table = Map.empty,
         backend_calls = [GetItem ''00000000-0000-0000-0000-000000000000'']\<rparr>)"
proof -
  have low: "map lower ''00000000-0000-0000-0000-000000000000''
      = ''00000000-0000-0000-0000-000000000000''"
    by (simp add: lower_def)
  have absent: "db_table empty_world (map lower ''00000000-0000-0000-0000-000000000000'') = None"
    by (simp add: empty_world_def)
  from absent_id_not_found [OF regex_nil_uuid example_env_simps(4) absent]
  show ?thesis
    unfolding low by (simp add: empty_world_def)
qed

text \<open>
  C8. The claim: a \<open>POST\<close> that fails validation, an amount that does not parse
  included, is answered with the form shown again, holding the submitted customer and
  amount and the error message. For an amount that does not parse, \<open>float\<close> raises before
  \<open>amount\<close> is assigned, the \<open>except ValueError\<close> clause reads \<open>amount\<close>, and the
  \<open>UnboundLocalError\<close> leaves the view: the answer is Flask's 500.
\<close>

theorem unparsable_amount_crashes:
  "submit_order example_env (post ''Jane Doe'' ''abc'') empty_world
     = (InternalServerError (UnboundLocalError ''amount''), empty_world)"
  by (simp add: submit_order_def post_simps py_float_abc handle_exception_def render_error_def)




end
